theory Spec2Isabelle
  imports
    Main
    "HOL-Library.Word"
    "HOL-Library.Char_ord"
    "HOL-Library.List_Lexorder"
    "HOL-Library.Product_Lexorder"
begin

unbundle bit_operations_syntax

section \<open>JavaScript values\<close>

text \<open>
  A JavaScript string is modelled as a \<^typ>\<open>string\<close>: the list of its code units, each below
  256.  An optional property (\<open>field?: T\<close>, or a property that a JSON payload may leave out) is
  an \<^typ>\<open>'a option\<close>, with \<open>None\<close> for \<open>undefined\<close>.
\<close>

text \<open>Truthiness of an optional string: \<open>undefined\<close> and \<open>''\<close> are falsy.\<close>

definition truthy :: "string option \<Rightarrow> bool" where
  "truthy v = (case v of None \<Rightarrow> False | Some s \<Rightarrow> s \<noteq> [])"

text \<open>\<open>v || d\<close> for an optional string \<open>v\<close> and a string \<open>d\<close>.\<close>

definition or_else :: "string option \<Rightarrow> string \<Rightarrow> string" where
  "or_else v d = (case v of None \<Rightarrow> d | Some s \<Rightarrow> if s = [] then d else s)"

text \<open>\<open>v || null\<close>: a falsy string becomes \<open>null\<close>.\<close>

definition or_null :: "string option \<Rightarrow> string option" where
  "or_null v = (if truthy v then v else None)"

text \<open>\<open>parts.join(sep)\<close>.\<close>

fun join :: "string \<Rightarrow> string list \<Rightarrow> string" where
  "join sep [] = []"
| "join sep [p] = p"
| "join sep (p # q # ps) = p @ sep @ join sep (q # ps)"

text \<open>\<open>String(n)\<close> for an integral number.\<close>

function digits10 :: "int \<Rightarrow> string" where
  "digits10 n =
     (if n < 10 then [''0123456789'' ! nat n]
      else digits10 (n div 10) @ [''0123456789'' ! nat (n mod 10)])"
  by pat_completeness auto
termination
  by (relation "measure nat") auto

definition String_of_int :: "int \<Rightarrow> string" where
  "String_of_int n = (if n < 0 then CHR ''-'' # digits10 (- n) else digits10 n)"

text \<open>\<open>n.toString(16)\<close> for a non-negative integer, and \<open>s.padStart(8, '0')\<close>.\<close>

function toString16 :: "int \<Rightarrow> string" where
  "toString16 n =
     (if n < 16 then [''0123456789abcdef'' ! nat n]
      else toString16 (n div 16) @ [''0123456789abcdef'' ! nat (n mod 16)])"
  by pat_completeness auto
termination
  by (relation "measure nat") auto

definition padStart8 :: "string \<Rightarrow> string" where
  "padStart8 s = replicate (8 - length s) CHR ''0'' @ s"

section \<open>Types of the wire protocol (\<open>types.ts\<close>)\<close>

record StackFrame =
  frame_filename :: "string option"
  frame_function :: "string option"
  frame_lineno :: "int option"
  frame_in_app :: "bool option"

record Stacktrace =
  st_frames :: "StackFrame list option"

record ExceptionValue =
  exc_type :: "string option"
  exc_value :: "string option"
  exc_stacktrace :: "Stacktrace option"

record ExceptionInterface =
  exc_values :: "ExceptionValue list option"

record EventUser =
  user_id :: "string option"
  user_email :: "string option"
  user_ip_address :: "string option"
  user_username :: "string option"

record SentryEvent =
  event_id :: "string option"
  ev_timestamp :: "string option"
  ev_platform :: "string option"
  ev_level :: "string option"
  ev_transaction :: "string option"
  ev_release :: "string option"
  ev_environment :: "string option"
  ev_tags :: "(string \<times> string) list option"
  ev_user :: "EventUser option"
  ev_exception :: "ExceptionInterface option"
  ev_fingerprint :: "string list option"
  ev_message :: "string option"

record IssueMetadata =
  meta_type :: string
  meta_value :: string
  meta_filename :: "string option"
  meta_function :: "string option"

section \<open>Regular expressions of the message normaliser\<close>

text \<open>
  Every regular expression of \<open>normalizeMessage\<close> is a sequence of greedy, bounded repetitions
  of a character class, and of word boundaries \<open>\b\<close>.  The matcher below follows the
  backtracking order of the JavaScript engine for such a sequence: a repetition first takes
  as many characters as it can and gives them back one at a time.
\<close>

datatype cls =
    Hex            \<comment> \<open>\<open>[0-9a-f]\<close> under the \<open>i\<close> flag\<close>
  | Digit          \<comment> \<open>\<open>\d\<close>\<close>
  | Lit char       \<comment> \<open>one literal character\<close>
  | TSep           \<comment> \<open>\<open>[T ]\<close>\<close>
  | EmailLocal     \<comment> \<open>\<open>[A-Za-z0-9._%+-]\<close>\<close>
  | EmailDomain    \<comment> \<open>\<open>[A-Za-z0-9.-]\<close>\<close>
  | Tld            \<comment> \<open>\<open>[A-Z|a-z]\<close>\<close>
  | Space          \<comment> \<open>\<open>\s\<close>\<close>

datatype atom = Rep cls nat "nat option" | WordBoundary

definition is_digit :: "char \<Rightarrow> bool" where
  "is_digit c = (CHR ''0'' \<le> c \<and> c \<le> CHR ''9'')"

definition is_lower :: "char \<Rightarrow> bool" where
  "is_lower c = (CHR ''a'' \<le> c \<and> c \<le> CHR ''z'')"

definition is_upper :: "char \<Rightarrow> bool" where
  "is_upper c = (CHR ''A'' \<le> c \<and> c \<le> CHR ''Z'')"

definition is_alnum :: "char \<Rightarrow> bool" where
  "is_alnum c = (is_digit c \<or> is_lower c \<or> is_upper c)"

text \<open>\<open>\w\<close>.\<close>

definition is_word :: "char \<Rightarrow> bool" where
  "is_word c = (is_alnum c \<or> c = CHR ''_'')"

text \<open>
  \<open>\s\<close>, and the characters \<open>trim\<close> removes: tab, line feed, vertical tab, form feed,
  carriage return, space and the no-break space (the other white space of JavaScript lies
  above code unit 255).
\<close>

definition is_space :: "char \<Rightarrow> bool" where
  "is_space c = (of_char c \<in> {9, 10, 11, 12, 13, 32, 160 :: nat})"

fun in_cls :: "cls \<Rightarrow> char \<Rightarrow> bool" where
  "in_cls Hex c =
     (is_digit c \<or> (CHR ''a'' \<le> c \<and> c \<le> CHR ''f'') \<or> (CHR ''A'' \<le> c \<and> c \<le> CHR ''F''))"
| "in_cls Digit c = is_digit c"
| "in_cls (Lit l) c = (c = l)"
| "in_cls TSep c = (c = CHR ''T'' \<or> c = CHR '' '')"
| "in_cls EmailLocal c = (is_alnum c \<or> c \<in> set ''._%+-'')"
| "in_cls EmailDomain c = (is_alnum c \<or> c \<in> set ''.-'')"
| "in_cls Tld c = (is_lower c \<or> is_upper c \<or> c = CHR ''|'')"
| "in_cls Space c = is_space c"

text \<open>Whether the character before, or after, a position is a word character.\<close>

definition word_at :: "char option \<Rightarrow> bool" where
  "word_at c = (case c of None \<Rightarrow> False | Some x \<Rightarrow> is_word x)"

definition next_char :: "string \<Rightarrow> char option" where
  "next_char s = (case s of [] \<Rightarrow> None | c # _ \<Rightarrow> Some c)"

text \<open>The character before the position reached after \<open>k\<close> more characters of \<open>s\<close>.\<close>

definition prev_after :: "char option \<Rightarrow> string \<Rightarrow> nat \<Rightarrow> char option" where
  "prev_after prev s k = (if k = 0 then prev else Some (s ! (k - 1)))"

fun first_some :: "'a option list \<Rightarrow> 'a option" where
  "first_some [] = None"
| "first_some (None # xs) = first_some xs"
| "first_some (Some x # xs) = Some x"

text \<open>
  \<open>match_atoms re prev s\<close> matches \<open>re\<close> at the start of \<open>s\<close>, where \<open>prev\<close> is the character
  before \<open>s\<close> in the subject; it returns the text left after the match the engine finds
  first, or \<open>None\<close> when there is no match at this position.
\<close>

fun match_atoms :: "atom list \<Rightarrow> char option \<Rightarrow> string \<Rightarrow> string option" where
  "match_atoms [] prev s = Some s"
| "match_atoms (WordBoundary # re) prev s =
     (if word_at prev \<noteq> word_at (next_char s) then match_atoms re prev s else None)"
| "match_atoms (Rep c lo hi # re) prev s =
     (let avail = length (takeWhile (in_cls c) s);
          top = (case hi of None \<Rightarrow> avail | Some h \<Rightarrow> min h avail)
      in first_some
           (map (\<lambda>k. match_atoms re (prev_after prev s k) (drop k s)) (rev [lo ..< Suc top])))"

text \<open>
  \<open>subject.replace(re, repl)\<close> for a global \<open>re\<close>: the matches are found from left to right,
  each search starting where the last match ended (one character further after an empty
  match).
\<close>

function replace_all :: "atom list \<Rightarrow> string \<Rightarrow> char option \<Rightarrow> string \<Rightarrow> string" where
  "replace_all re repl prev s =
     (case match_atoms re prev s of
        None \<Rightarrow> (case s of [] \<Rightarrow> [] | c # cs \<Rightarrow> c # replace_all re repl (Some c) cs)
      | Some rest \<Rightarrow>
          if length rest < length s
          then repl @ replace_all re repl (Some (s ! (length s - length rest - 1))) rest
          else (case s of [] \<Rightarrow> repl | c # cs \<Rightarrow> repl @ c # replace_all re repl (Some c) cs))"
  by pat_completeness auto
termination
  by (relation "measure (\<lambda>(re, repl, prev, s). length s)") auto

definition re_uuid :: "atom list" where
  "re_uuid =
     [Rep Hex 8 (Some 8), Rep (Lit CHR ''-'') 1 (Some 1), Rep Hex 4 (Some 4),
      Rep (Lit CHR ''-'') 1 (Some 1), Rep Hex 4 (Some 4), Rep (Lit CHR ''-'') 1 (Some 1),
      Rep Hex 4 (Some 4), Rep (Lit CHR ''-'') 1 (Some 1), Rep Hex 12 (Some 12)]"

definition re_hex_id :: "atom list" where
  "re_hex_id = [WordBoundary, Rep Hex 24 None, WordBoundary]"

definition re_number :: "atom list" where
  "re_number = [WordBoundary, Rep Digit 6 None, WordBoundary]"

definition re_timestamp :: "atom list" where
  "re_timestamp =
     [Rep Digit 4 (Some 4), Rep (Lit CHR ''-'') 1 (Some 1), Rep Digit 2 (Some 2),
      Rep (Lit CHR ''-'') 1 (Some 1), Rep Digit 2 (Some 2), Rep TSep 1 (Some 1),
      Rep Digit 2 (Some 2), Rep (Lit CHR '':'') 1 (Some 1), Rep Digit 2 (Some 2),
      Rep (Lit CHR '':'') 1 (Some 1), Rep Digit 2 (Some 2)]"

definition re_ip :: "atom list" where
  "re_ip =
     [WordBoundary, Rep Digit 1 (Some 3), Rep (Lit CHR ''.'') 1 (Some 1),
      Rep Digit 1 (Some 3), Rep (Lit CHR ''.'') 1 (Some 1), Rep Digit 1 (Some 3),
      Rep (Lit CHR ''.'') 1 (Some 1), Rep Digit 1 (Some 3), WordBoundary]"

definition re_email :: "atom list" where
  "re_email =
     [WordBoundary, Rep EmailLocal 1 None, Rep (Lit CHR ''@'') 1 (Some 1),
      Rep EmailDomain 1 None, Rep (Lit CHR ''.'') 1 (Some 1), Rep Tld 2 None, WordBoundary]"

definition re_spaces :: "atom list" where
  "re_spaces = [Rep Space 1 None]"

text \<open>\<open>s.trim()\<close>.\<close>

definition trim :: "string \<Rightarrow> string" where
  "trim s = rev (dropWhile is_space (rev (dropWhile is_space s)))"

section \<open>Fingerprinter (\<open>lib/fingerprint.ts\<close>)\<close>

definition normalizeMessage :: "string \<Rightarrow> string" where
  "normalizeMessage message =
     take 500 (trim
       (replace_all re_spaces '' '' None
       (replace_all re_email ''<email>'' None
       (replace_all re_ip ''<ip>'' None
       (replace_all re_timestamp ''<timestamp>'' None
       (replace_all re_number ''<num>'' None
       (replace_all re_hex_id ''<id>'' None
       (replace_all re_uuid ''<uuid>'' None message))))))))"

text \<open>
  \<open>simpleHash\<close>: \<open>hash\<close> starts at 5381; \<open>(hash * 33) ^ code\<close> converts the product to a signed
  32-bit integer before the exclusive or, so \<open>hash\<close> is a 32-bit word throughout (the product
  stays below \<open>2 ^ 53\<close> and is exact); \<open>hash >>> 0\<close> reads the word as unsigned.
\<close>

definition simpleHash :: "string \<Rightarrow> string" where
  "simpleHash str =
     padStart8 (toString16 (uint
       (foldl (\<lambda>hash c. (hash * 33) XOR of_char c) (5381 :: 32 word) str)))"

definition hashArray :: "string list \<Rightarrow> string" where
  "hashArray parts = simpleHash (join ''||'' parts)"

text \<open>
  \<open>getTopFrames\<close>: no stack trace, no \<open>frames\<close> property or an empty frame list gives no
  frame; else the frames are reversed and the frames with \<open>in_app !== false\<close> are preferred.
\<close>

definition getTopFrames :: "Stacktrace option \<Rightarrow> nat \<Rightarrow> StackFrame list" where
  "getTopFrames stacktrace count =
     (case stacktrace of
        None \<Rightarrow> []
      | Some st \<Rightarrow>
          (case st_frames st of
             None \<Rightarrow> []
           | Some fs \<Rightarrow>
               if length fs = 0 then []
               else
                 let frames = rev fs;
                     inAppFrames = filter (\<lambda>f. frame_in_app f \<noteq> Some False) frames
                 in if length inAppFrames > 0 then take count inAppFrames
                    else take count frames))"

definition getTopFrame :: "Stacktrace option \<Rightarrow> StackFrame option" where
  "getTopFrame stacktrace =
     (case getTopFrames stacktrace 1 of [] \<Rightarrow> None | f # _ \<Rightarrow> Some f)"

text \<open>
  \<open>formatFrame\<close>: the file name up to its first \<open>?\<close> and then up to its first \<open>#\<close>, the
  function and the line number, leaving out what is falsy, joined by \<open>:\<close>.
\<close>

definition formatFrame :: "StackFrame \<Rightarrow> string" where
  "formatFrame frame =
     join '':''
       ((if truthy (frame_filename frame)
         then [takeWhile (\<lambda>c. c \<noteq> CHR ''#'')
                 (takeWhile (\<lambda>c. c \<noteq> CHR ''?'') (the (frame_filename frame)))]
         else []) @
        (if truthy (frame_function frame) then [the (frame_function frame)] else []) @
        (case frame_lineno frame of
           None \<Rightarrow> []
         | Some n \<Rightarrow> if n \<noteq> 0 then [String_of_int n] else []))"

text \<open>The first exception value, when \<open>exception.values\<close> is there and not empty.\<close>

definition first_exception :: "SentryEvent \<Rightarrow> ExceptionValue option" where
  "first_exception event =
     (case ev_exception event of
        None \<Rightarrow> None
      | Some ex \<Rightarrow>
          (case exc_values ex of
             None \<Rightarrow> None
           | Some [] \<Rightarrow> None
           | Some (exc # _) \<Rightarrow> Some exc))"

text \<open>
  \<open>generateFingerprint\<close>.  In the last case \<open>[event.event_id].join\<close> renders a missing id as
  the empty string.
\<close>

definition generateFingerprint :: "SentryEvent \<Rightarrow> string" where
  "generateFingerprint event =
     (let nonDefault =
            (case ev_fingerprint event of
               None \<Rightarrow> []
             | Some fp \<Rightarrow> filter (\<lambda>f. f \<noteq> ''{{ default }}'') fp)
      in if length nonDefault > 0 then hashArray nonDefault
         else
           (case first_exception event of
              Some exc \<Rightarrow>
                hashArray
                  ([or_else (exc_type exc) ''Error'',
                    normalizeMessage (or_else (exc_value exc) '''')] @
                   map formatFrame (getTopFrames (exc_stacktrace exc) 3))
            | None \<Rightarrow>
                if truthy (ev_message event)
                then hashArray
                       [or_else (ev_level event) ''error'',
                        normalizeMessage (the (ev_message event))]
                else hashArray [case event_id event of None \<Rightarrow> [] | Some i \<Rightarrow> i]))"

subsection \<open>The grouping priority as the specification words it\<close>

text \<open>The fingerprint tokens of the event that differ from the literal \<open>{{ default }}\<close>.\<close>

definition explicit_tokens :: "SentryEvent \<Rightarrow> string list" where
  "explicit_tokens e =
     (case ev_fingerprint e of
        None \<Rightarrow> []
      | Some toks \<Rightarrow> [t \<leftarrow> toks. t \<noteq> ''{{ default }}''])"

text \<open>The frames of an exception value in reversed SDK order; none without a stack trace.\<close>

definition reversed_frames :: "ExceptionValue \<Rightarrow> StackFrame list" where
  "reversed_frames exc =
     (case exc_stacktrace exc of
        None \<Rightarrow> []
      | Some st \<Rightarrow> (case st_frames st of None \<Rightarrow> [] | Some fs \<Rightarrow> rev fs))"

text \<open>A frame counts as in-app unless its \<open>in_app\<close> field is \<open>false\<close>.\<close>

definition is_in_app :: "StackFrame \<Rightarrow> bool" where
  "is_in_app f = (frame_in_app f \<noteq> Some False)"

text \<open>Up to three top in-app frames, taken after reversing the SDK frame order.\<close>

definition top_in_app_frames :: "ExceptionValue \<Rightarrow> StackFrame list" where
  "top_in_app_frames exc = take 3 (filter is_in_app (reversed_frames exc))"

text \<open>
  The same, with the fallback: when no frame is in-app, up to three top frames of any kind.
\<close>

definition top_frames_or_any :: "ExceptionValue \<Rightarrow> StackFrame list" where
  "top_frames_or_any exc =
     (if filter is_in_app (reversed_frames exc) = [] then take 3 (reversed_frames exc)
      else top_in_app_frames exc)"

text \<open>The tuple \<open>[type, normalized message, frame, ...]\<close> of an exception value.\<close>

definition exception_tuple :: "ExceptionValue \<Rightarrow> StackFrame list \<Rightarrow> string list" where
  "exception_tuple exc fs =
     [or_else (exc_type exc) ''Error'', normalizeMessage (or_else (exc_value exc) [])] @
     map formatFrame fs"

text \<open>The tuple \<open>[level or "error", normalized message]\<close> of a message event.\<close>

definition message_tuple :: "SentryEvent \<Rightarrow> string list" where
  "message_tuple e =
     [or_else (ev_level e) ''error'', normalizeMessage (or_else (ev_message e) [])]"

text \<open>The tuple that the grouping inputs of an event reduce to after normalization.\<close>

definition grouping_tuple :: "SentryEvent \<Rightarrow> string list" where
  "grouping_tuple e =
     (if explicit_tokens e \<noteq> [] then explicit_tokens e
      else if first_exception e \<noteq> None
      then exception_tuple (the (first_exception e)) (top_frames_or_any (the (first_exception e)))
      else if truthy (ev_message e) then message_tuple e
      else [or_else (event_id e) []])"

subsection \<open>Example events\<close>

definition bare_event :: SentryEvent where
  "bare_event =
     \<lparr>event_id = Some ''e1'', ev_timestamp = None, ev_platform = None, ev_level = None,
      ev_transaction = None, ev_release = None, ev_environment = None, ev_tags = None,
      ev_user = None, ev_exception = None, ev_fingerprint = None, ev_message = None\<rparr>"

definition exception_event :: "ExceptionValue \<Rightarrow> SentryEvent" where
  "exception_event exc = bare_event\<lparr>ev_exception := Some \<lparr>exc_values = Some [exc]\<rparr>\<rparr>"

definition frame_of :: "string \<Rightarrow> bool option \<Rightarrow> StackFrame" where
  "frame_of file flag =
     \<lparr>frame_filename = Some file, frame_function = None, frame_lineno = None,
      frame_in_app = flag\<rparr>"

definition exception_with :: "string \<Rightarrow> StackFrame list \<Rightarrow> ExceptionValue" where
  "exception_with msg fs =
     \<lparr>exc_type = Some ''TypeError'', exc_value = Some msg,
      exc_stacktrace = Some \<lparr>st_frames = Some fs\<rparr>\<rparr>"

text \<open>An exception whose only frame is a library frame (\<open>in_app: false\<close>).\<close>

definition library_exception :: ExceptionValue where
  "library_exception = exception_with ''x'' [frame_of ''lib.js'' (Some False)]"

text \<open>An event that carries explicit fingerprint tokens.\<close>

definition tagged_event :: SentryEvent where
  "tagged_event = bare_event\<lparr>ev_fingerprint := Some [''{{ default }}'', ''checkout'']\<rparr>"

text \<open>An exception with an application frame without \<open>in_app\<close> below a library frame.\<close>

definition app_exception :: "string \<Rightarrow> ExceptionValue" where
  "app_exception msg =
     exception_with msg [frame_of ''app.js'' None, frame_of ''lib.js'' (Some False)]"

definition message_event :: SentryEvent where
  "message_event = bare_event\<lparr>ev_message := Some ''disk full''\<rparr>"

text \<open>Two events that differ in their ids and in the request id their messages quote.\<close>

definition request_event_1 :: SentryEvent where
  "request_event_1 =
     exception_event (app_exception ''Request abc12345-1234-1234-1234-1234567890ab failed'')"

definition request_event_2 :: SentryEvent where
  "request_event_2 =
     (exception_event (app_exception ''Request def67890-4321-4321-4321-0987654321fe failed''))
       \<lparr>event_id := Some ''e2''\<rparr>"

subsection \<open>Title, culprit and metadata of a new issue\<close>

definition extractTitle :: "SentryEvent \<Rightarrow> string" where
  "extractTitle event =
     (case first_exception event of
        Some exc \<Rightarrow>
          (let type = or_else (exc_type exc) ''Error'';
               val = or_else (exc_value exc) [];
               truncatedValue = (if length val > 100 then take 97 val @ ''...'' else val)
           in type @ '': '' @ truncatedValue)
      | None \<Rightarrow>
          if truthy (ev_message event)
          then (let message = the (ev_message event)
                in if length message > 128 then take 125 message @ ''...'' else message)
          else ''Unknown Error'')"

definition extractCulprit :: "SentryEvent \<Rightarrow> string option" where
  "extractCulprit event =
     (if truthy (ev_transaction event) then ev_transaction event
      else
        (case first_exception event of
           None \<Rightarrow> None
         | Some exc \<Rightarrow>
             (case getTopFrame (exc_stacktrace exc) of
                None \<Rightarrow> None
              | Some frame \<Rightarrow>
                  (let parts =
                         (if truthy (frame_filename frame) then [the (frame_filename frame)]
                          else []) @
                         (if truthy (frame_function frame) \<and>
                             frame_function frame \<noteq> Some ''<anonymous>''
                          then [''in '' @ the (frame_function frame)] else []) @
                         (case frame_lineno frame of
                            None \<Rightarrow> []
                          | Some n \<Rightarrow>
                              if n \<noteq> 0 then [''at line '' @ String_of_int n] else [])
                   in if length parts > 0 then Some (join '' '' parts) else None))))"

definition extractMetadata :: "SentryEvent \<Rightarrow> IssueMetadata" where
  "extractMetadata event =
     (case first_exception event of
        Some exc \<Rightarrow>
          (let metadata =
                 \<lparr>meta_type = or_else (exc_type exc) ''Error'',
                  meta_value = take 200 (or_else (exc_value exc) []),
                  meta_filename = None, meta_function = None\<rparr>
           in case getTopFrame (exc_stacktrace exc) of
                None \<Rightarrow> metadata
              | Some frame \<Rightarrow>
                  metadata\<lparr>meta_filename := frame_filename frame,
                    meta_function := frame_function frame\<rparr>)
      | None \<Rightarrow>
          if truthy (ev_message event)
          then \<lparr>meta_type = ''Message'', meta_value = take 200 (the (ev_message event)),
                meta_filename = None, meta_function = None\<rparr>
          else \<lparr>meta_type = ''Error'', meta_value = [],
                meta_filename = None, meta_function = None\<rparr>)"

section \<open>Project shard (\<open>durable-objects/project-state.ts\<close>)\<close>

subsection \<open>Tables\<close>

text \<open>
  The four tables of \<open>SCHEMA\<close>, each a list of rows in insertion order.  The \<open>metadata\<close> and
  \<open>data\<close> columns hold the value whose JSON text the source stores.
\<close>

record issue_row =
  i_id :: string
  i_fingerprint :: string
  i_title :: string
  i_culprit :: "string option"
  i_level :: string
  i_platform :: string
  i_first_seen :: string
  i_last_seen :: string
  i_count :: int
  i_user_count :: int
  i_status :: string
  i_metadata :: IssueMetadata

record event_row =
  e_id :: string
  e_issue_id :: string
  e_timestamp :: string
  e_received_at :: string
  e_level :: string
  e_platform :: "string option"
  e_environment :: "string option"
  e_release :: "string option"
  e_transaction_name :: "string option"
  e_user_id :: "string option"
  e_user_email :: "string option"
  e_user_ip :: "string option"
  e_tags :: "(string \<times> string) list option"
  e_data :: SentryEvent

record stat_row =
  s_issue_id :: string
  s_bucket :: string
  s_count :: int

record user_row =
  u_issue_id :: string
  u_user_hash :: string
  u_first_seen :: string
  u_last_seen :: string

record shard =
  issues :: "issue_row list"
  events :: "event_row list"
  issue_stats :: "stat_row list"
  issue_users :: "user_row list"

definition empty_shard :: shard where
  "empty_shard = \<lparr>issues = [], events = [], issue_stats = [], issue_users = []\<rparr>"

subsection \<open>The platform\<close>

text \<open>
  What a handler reads from the runtime: the clock, the random UUIDs, date parsing and
  printing, SHA-256, and the behaviour of the storage cursor's \<open>one()\<close> on an empty result
  (the platform documents an exception; the null checks of the source expect no row).
  \<open>parse_date\<close> gives the milliseconds since the epoch of \<open>new Date(s)\<close>, or \<open>None\<close> for an
  invalid date.
\<close>

record platform =
  now :: string
  event_uuid :: string
  issue_uuid :: string
  parse_date :: "string \<Rightarrow> int option"
  iso_string :: "int \<Rightarrow> string"
  sha256_hex :: "string \<Rightarrow> string"
  one_throws_on_empty :: bool

text \<open>
  A request ends in a response, or in an exception.  The source opens no transaction: each
  \<open>sql.exec\<close> changes the store when it runs, so the statements that ran before an
  exception stay applied, and every handler returns the store it leaves behind.
\<close>

datatype error =
    ConstraintViolation string  \<comment> \<open>the store rejects an \<open>INSERT\<close>\<close>
  | CursorNotOneRow             \<comment> \<open>\<open>one()\<close> on a result that is not one row\<close>
  | InvalidTimeValue            \<comment> \<open>\<open>toISOString\<close> of an invalid date\<close>
  | TypeError                   \<comment> \<open>a property read on \<open>null\<close>, or set on a primitive\<close>
  | OutsideModel string         \<comment> \<open>a query the model does not cover\<close>
  | BadRequest string           \<comment> \<open>a 400 response\<close>

definition cursor_one :: "bool \<Rightarrow> 'a list \<Rightarrow> error + 'a option" where
  "cursor_one strict rows =
     (case rows of
        [] \<Rightarrow> if strict then Inl CursorNotOneRow else Inr None
      | [r] \<Rightarrow> Inr (Some r)
      | _ \<Rightarrow> Inl CursorNotOneRow)"

text \<open>
  \<open>getHourBucket\<close>: \<open>setMinutes(0, 0, 0)\<close> clears minutes, seconds and milliseconds (the local
  time of the runtime is UTC), and \<open>toISOString\<close> throws on an invalid date.
\<close>

definition getHourBucket :: "platform \<Rightarrow> string \<Rightarrow> error + string" where
  "getHourBucket pf timestamp =
     (case parse_date pf timestamp of
        None \<Rightarrow> Inl InvalidTimeValue
      | Some ms \<Rightarrow> Inr (iso_string pf (ms - ms mod 3600000)))"

text \<open>
  \<open>hashUserIdentifier\<close>: the first truthy of id, email, IP address and user name; the first
  32 characters of its SHA-256 in hexadecimal.
\<close>

definition hashUserIdentifier :: "platform \<Rightarrow> EventUser \<Rightarrow> string option" where
  "hashUserIdentifier pf user =
     (let identifier =
            (if truthy (user_id user) then user_id user
             else if truthy (user_email user) then user_email user
             else if truthy (user_ip_address user) then user_ip_address user
             else user_username user)
      in if \<not> truthy identifier then None
         else Some (take 32 (sha256_hex pf (the identifier))))"

subsection \<open>Statements\<close>

text \<open>\<open>UPDATE issues SET last_seen = ?, count = count + 1 WHERE id = ?\<close>\<close>

definition bump_issue :: "string \<Rightarrow> string \<Rightarrow> issue_row list \<Rightarrow> issue_row list" where
  "bump_issue seen issueId rows =
     map (\<lambda>r. if i_id r = issueId then r\<lparr>i_last_seen := seen, i_count := i_count r + 1\<rparr> else r)
       rows"

text \<open>
  \<open>INSERT INTO issues\<close>: \<open>id\<close> is the primary key and \<open>fingerprint\<close> is unique.
\<close>

definition insert_issue :: "issue_row \<Rightarrow> issue_row list \<Rightarrow> error + issue_row list" where
  "insert_issue row rows =
     (if i_id row \<in> set (map i_id rows) then Inl (ConstraintViolation ''issues.id'')
      else if i_fingerprint row \<in> set (map i_fingerprint rows)
      then Inl (ConstraintViolation ''issues.fingerprint'')
      else Inr (rows @ [row]))"

text \<open>\<open>INSERT INTO events\<close>: \<open>id\<close> is the primary key.\<close>

definition insert_event :: "event_row \<Rightarrow> event_row list \<Rightarrow> error + event_row list" where
  "insert_event row rows =
     (if e_id row \<in> set (map e_id rows) then Inl (ConstraintViolation ''events.id'')
      else Inr (rows @ [row]))"

text \<open>
  \<open>INSERT INTO issue_stats ... VALUES (?, ?, 1) ON CONFLICT (issue_id, bucket) DO UPDATE SET
  count = count + 1\<close>
\<close>

definition upsert_stat :: "string \<Rightarrow> string \<Rightarrow> stat_row list \<Rightarrow> stat_row list" where
  "upsert_stat issueId bucket rows =
     (if \<exists>r \<in> set rows. s_issue_id r = issueId \<and> s_bucket r = bucket
      then map (\<lambda>r. if s_issue_id r = issueId \<and> s_bucket r = bucket
                     then r\<lparr>s_count := s_count r + 1\<rparr> else r) rows
      else rows @ [\<lparr>s_issue_id = issueId, s_bucket = bucket, s_count = 1\<rparr>])"

text \<open>\<open>UPDATE issue_users SET last_seen = ? WHERE issue_id = ? AND user_hash = ?\<close>\<close>

definition touch_user :: "string \<Rightarrow> string \<Rightarrow> string \<Rightarrow> user_row list \<Rightarrow> user_row list" where
  "touch_user seen issueId userHash rows =
     map (\<lambda>r. if u_issue_id r = issueId \<and> u_user_hash r = userHash
               then r\<lparr>u_last_seen := seen\<rparr> else r) rows"

text \<open>\<open>INSERT INTO issue_users\<close>: \<open>(issue_id, user_hash)\<close> is the primary key.\<close>

definition insert_user :: "user_row \<Rightarrow> user_row list \<Rightarrow> error + user_row list" where
  "insert_user row rows =
     (if \<exists>r \<in> set rows. u_issue_id r = u_issue_id row \<and> u_user_hash r = u_user_hash row
      then Inl (ConstraintViolation ''issue_users.issue_id, issue_users.user_hash'')
      else Inr (rows @ [row]))"

text \<open>\<open>UPDATE issues SET user_count = user_count + 1 WHERE id = ?\<close>\<close>

definition bump_user_count :: "string \<Rightarrow> issue_row list \<Rightarrow> issue_row list" where
  "bump_user_count issueId rows =
     map (\<lambda>r. if i_id r = issueId then r\<lparr>i_user_count := i_user_count r + 1\<rparr> else r) rows"

subsection \<open>\<open>handleIngest\<close>\<close>

record ingest_result =
  eventId :: string
  issueId :: string

text \<open>The row of \<open>INSERT INTO issues\<close> for a new issue; \<open>user_count\<close> takes its default 0.\<close>

definition new_issue_row :: "platform \<Rightarrow> SentryEvent \<Rightarrow> string \<Rightarrow> issue_row" where
  "new_issue_row pf event fingerprint =
     \<lparr>i_id = issue_uuid pf, i_fingerprint = fingerprint, i_title = extractTitle event,
      i_culprit = extractCulprit event, i_level = or_else (ev_level event) ''error'',
      i_platform = or_else (ev_platform event) ''javascript'',
      i_first_seen = now pf, i_last_seen = now pf, i_count = 1, i_user_count = 0,
      i_status = ''unresolved'', i_metadata = extractMetadata event\<rparr>"

text \<open>The row of \<open>INSERT INTO events\<close>.\<close>

definition new_event_row ::
  "platform \<Rightarrow> SentryEvent \<Rightarrow> string \<Rightarrow> string \<Rightarrow> string \<Rightarrow> event_row" where
  "new_event_row pf event evId isId timestamp =
     \<lparr>e_id = evId, e_issue_id = isId, e_timestamp = timestamp, e_received_at = now pf,
      e_level = or_else (ev_level event) ''error'',
      e_platform = or_null (ev_platform event),
      e_environment = or_null (ev_environment event),
      e_release = or_null (ev_release event),
      e_transaction_name = or_null (ev_transaction event),
      e_user_id = (case ev_user event of None \<Rightarrow> None | Some u \<Rightarrow> or_null (user_id u)),
      e_user_email = (case ev_user event of None \<Rightarrow> None | Some u \<Rightarrow> or_null (user_email u)),
      e_user_ip =
        (case ev_user event of None \<Rightarrow> None | Some u \<Rightarrow> or_null (user_ip_address u)),
      e_tags = ev_tags event, e_data = event\<rparr>"

text \<open>The first part of \<open>handleIngest\<close>: find the issue of the fingerprint, or create it.\<close>

definition upsert_issue ::
  "platform \<Rightarrow> SentryEvent \<Rightarrow> shard \<Rightarrow> (error + string) \<times> shard" where
  "upsert_issue pf event s =
     (let fingerprint = generateFingerprint event;
          existingRows = [r \<leftarrow> issues s. i_fingerprint r = fingerprint]
      in case existingRows of
           existingIssue # _ \<Rightarrow>
             (Inr (i_id existingIssue),
              s\<lparr>issues := bump_issue (now pf) (i_id existingIssue) (issues s)\<rparr>)
         | [] \<Rightarrow>
             (case insert_issue (new_issue_row pf event fingerprint) (issues s) of
                Inl err \<Rightarrow> (Inl err, s)
              | Inr rows \<Rightarrow> (Inr (issue_uuid pf), s\<lparr>issues := rows\<rparr>)))"

text \<open>The last part of \<open>handleIngest\<close>: track the unique users of the issue.\<close>

definition track_user ::
  "platform \<Rightarrow> SentryEvent \<Rightarrow> string \<Rightarrow> shard \<Rightarrow> (error + unit) \<times> shard" where
  "track_user pf event isId s =
     (case ev_user event of
        None \<Rightarrow> (Inr (), s)
      | Some user \<Rightarrow>
          (case hashUserIdentifier pf user of
             None \<Rightarrow> (Inr (), s)
           | Some userHash \<Rightarrow>
               if userHash = [] then (Inr (), s)
               else
                 (case cursor_one (one_throws_on_empty pf)
                         [r \<leftarrow> issue_users s. u_issue_id r = isId \<and> u_user_hash r = userHash] of
                    Inl err \<Rightarrow> (Inl err, s)
                  | Inr (Some existingUser) \<Rightarrow>
                      (Inr (),
                       s\<lparr>issue_users := touch_user (now pf) isId userHash (issue_users s)\<rparr>)
                  | Inr None \<Rightarrow>
                      (case insert_user
                              \<lparr>u_issue_id = isId, u_user_hash = userHash,
                               u_first_seen = now pf, u_last_seen = now pf\<rparr>
                              (issue_users s) of
                         Inl err \<Rightarrow> (Inl err, s)
                       | Inr rows \<Rightarrow>
                           (Inr (),
                            s\<lparr>issue_users := rows,
                              issues := bump_user_count isId (issues s)\<rparr>)))))"

definition handleIngest ::
  "platform \<Rightarrow> SentryEvent \<Rightarrow> shard \<Rightarrow> (error + ingest_result) \<times> shard" where
  "handleIngest pf event s =
     (let evId = or_else (event_id event) (event_uuid pf);
          timestamp = or_else (ev_timestamp event) (now pf)
      in case upsert_issue pf event s of
           (Inl err, s1) \<Rightarrow> (Inl err, s1)
         | (Inr isId, s1) \<Rightarrow>
             (case insert_event (new_event_row pf event evId isId timestamp) (events s1) of
                Inl err \<Rightarrow> (Inl err, s1)
              | Inr rows \<Rightarrow>
                  (let s2 = s1\<lparr>events := rows\<rparr>
                   in case getHourBucket pf timestamp of
                        Inl err \<Rightarrow> (Inl err, s2)
                      | Inr bucket \<Rightarrow>
                          (let s3 = s2\<lparr>issue_stats := upsert_stat isId bucket (issue_stats s2)\<rparr>
                           in case track_user pf event isId s3 of
                                (Inl err, s4) \<Rightarrow> (Inl err, s4)
                              | (Inr _, s4) \<Rightarrow>
                                  (Inr \<lparr>eventId = evId, issueId = isId\<rparr>, s4)))))"

subsection \<open>\<open>handleUpdateIssue\<close> and \<open>handleDeleteIssue\<close>\<close>

text \<open>The \<open>Issue\<close> object that \<open>rowToIssue\<close> builds, with its camel-case property names.\<close>

record Issue =
  iss_id :: string
  iss_fingerprint :: string
  iss_title :: string
  iss_culprit :: "string option"
  iss_level :: string
  iss_platform :: string
  iss_firstSeen :: string
  iss_lastSeen :: string
  iss_count :: int
  iss_userCount :: int
  iss_status :: string
  iss_metadata :: IssueMetadata

definition rowToIssue :: "issue_row \<Rightarrow> Issue" where
  "rowToIssue row =
     \<lparr>iss_id = i_id row, iss_fingerprint = i_fingerprint row, iss_title = i_title row,
      iss_culprit = i_culprit row, iss_level = i_level row, iss_platform = i_platform row,
      iss_firstSeen = i_first_seen row, iss_lastSeen = i_last_seen row,
      iss_count = i_count row, iss_userCount = i_user_count row,
      iss_status = i_status row, iss_metadata = i_metadata row\<rparr>"

record update_request =
  upd_issueId :: "string option"
  upd_status :: "string option"

text \<open>
  \<open>handleUpdateIssue\<close>: a truthy \<open>status\<close> is written to the row as it is; the response holds
  the row read back.
\<close>

definition handleUpdateIssue ::
  "platform \<Rightarrow> update_request \<Rightarrow> shard \<Rightarrow> (error + Issue option) \<times> shard" where
  "handleUpdateIssue pf req s =
     (if \<not> truthy (upd_issueId req) then (Inl (BadRequest ''missing_issue_id''), s)
      else if \<not> truthy (upd_status req) then (Inl (BadRequest ''no_updates''), s)
      else
        (let isId = the (upd_issueId req);
             s1 = s\<lparr>issues :=
                    map (\<lambda>r. if i_id r = isId then r\<lparr>i_status := the (upd_status req)\<rparr> else r)
                      (issues s)\<rparr>
         in case cursor_one (one_throws_on_empty pf) [r \<leftarrow> issues s1. i_id r = isId] of
              Inl err \<Rightarrow> (Inl err, s1)
            | Inr row \<Rightarrow> (Inr (map_option rowToIssue row), s1)))"

text \<open>
  \<open>handleDeleteIssue\<close>: \<open>DELETE FROM issues WHERE id = ?\<close>, which cascades to the events,
  the hourly buckets and the users of the issue (\<open>ON DELETE CASCADE\<close>).
\<close>

definition handleDeleteIssue :: "string option \<Rightarrow> shard \<Rightarrow> (error + bool) \<times> shard" where
  "handleDeleteIssue isId s =
     (if \<not> truthy isId then (Inl (BadRequest ''missing_issue_id''), s)
      else
        (Inr True,
         \<lparr>issues = [r \<leftarrow> issues s. i_id r \<noteq> the isId],
          events = [r \<leftarrow> events s. e_issue_id r \<noteq> the isId],
          issue_stats = [r \<leftarrow> issue_stats s. s_issue_id r \<noteq> the isId],
          issue_users = [r \<leftarrow> issue_users s. u_issue_id r \<noteq> the isId]\<rparr>))"

subsection \<open>Sequences of requests\<close>

datatype request =
    Ingest platform SentryEvent
  | UpdateIssue platform update_request
  | DeleteIssue "string option"

text \<open>The store after a request, whatever its response.\<close>

fun after_request :: "shard \<Rightarrow> request \<Rightarrow> shard" where
  "after_request s (Ingest pf event) = snd (handleIngest pf event s)"
| "after_request s (UpdateIssue pf req) = snd (handleUpdateIssue pf req s)"
| "after_request s (DeleteIssue isId) = snd (handleDeleteIssue isId s)"

definition run :: "request list \<Rightarrow> shard" where
  "run reqs = foldl after_request empty_shard reqs"

text \<open>The number of event rows of an issue.\<close>

definition events_of :: "shard \<Rightarrow> string \<Rightarrow> int" where
  "events_of s isId = int (length [e \<leftarrow> events s. e_issue_id e = isId])"

subsection \<open>An example platform and example requests\<close>

definition pf0 :: platform where
  "pf0 =
     \<lparr>now = ''2024-05-01T10:20:30.000Z'', event_uuid = ''uuid-event'', issue_uuid = ''uuid-issue'',
      parse_date = (\<lambda>t. Some 0), iso_string = (\<lambda>ms. ''1970-01-01T00:00:00.000Z''),
      sha256_hex = (\<lambda>identifier. identifier), one_throws_on_empty = True\<rparr>"

text \<open>The same platform an hour later, drawing another issue id.\<close>

definition pf1 :: platform where
  "pf1 = pf0\<lparr>now := ''2024-05-01T11:20:30.000Z'', issue_uuid := ''uuid-issue-2''\<rparr>"

text \<open>The shard after one event, and after the same envelope was sent again.\<close>

definition shard_once :: shard where
  "shard_once = run [Ingest pf0 message_event]"

definition shard_retried :: shard where
  "shard_retried = run [Ingest pf0 message_event, Ingest pf1 message_event]"

text \<open>An issue row without its \<open>last_seen\<close>, \<open>count\<close> and \<open>user_count\<close>.\<close>

definition other_fields :: "issue_row \<Rightarrow> issue_row" where
  "other_fields r = r\<lparr>i_last_seen := [], i_count := 0, i_user_count := 0\<rparr>"

text \<open>A later event of the same message, and a request that sets an unknown status.\<close>

definition second_event :: SentryEvent where
  "second_event = message_event\<lparr>event_id := Some ''e2''\<rparr>"

definition resolve_request :: update_request where
  "resolve_request = \<lparr>upd_issueId = Some ''uuid-issue'', upd_status = Some ''resolved''\<rparr>"

definition banana_request :: update_request where
  "banana_request = \<lparr>upd_issueId = Some ''uuid-issue'', upd_status = Some ''banana''\<rparr>"

definition shard_resolved :: shard where
  "shard_resolved = run [Ingest pf0 message_event, UpdateIssue pf0 resolve_request]"

subsection \<open>\<open>handleGetIssues\<close>\<close>

record issues_request =
  q_status :: "string option"
  q_level :: "string option"
  q_query :: "string option"
  q_sort :: "string option"
  q_cursor :: "string option"
  q_limit :: "int option"

text \<open>A JSON value of the response: a property of an \<open>Issue\<close> object.\<close>

datatype json_value = JNull | JNumber int | JString string | JMetadata IssueMetadata

record issues_response =
  resp_issues :: "Issue list"
  nextCursor :: "json_value option"
  hasMore :: bool

text \<open>
  \<open>issue[key]\<close>: the property of an \<open>Issue\<close> object under a key, \<open>None\<close> (\<open>undefined\<close>) for a
  key the object does not have.
\<close>

definition issue_property :: "Issue \<Rightarrow> string \<Rightarrow> json_value option" where
  "issue_property issue key =
     (if key = ''id'' then Some (JString (iss_id issue))
      else if key = ''fingerprint'' then Some (JString (iss_fingerprint issue))
      else if key = ''title'' then Some (JString (iss_title issue))
      else if key = ''culprit''
      then Some (case iss_culprit issue of None \<Rightarrow> JNull | Some c \<Rightarrow> JString c)
      else if key = ''level'' then Some (JString (iss_level issue))
      else if key = ''platform'' then Some (JString (iss_platform issue))
      else if key = ''firstSeen'' then Some (JString (iss_firstSeen issue))
      else if key = ''lastSeen'' then Some (JString (iss_lastSeen issue))
      else if key = ''count'' then Some (JNumber (iss_count issue))
      else if key = ''userCount'' then Some (JNumber (iss_userCount issue))
      else if key = ''status'' then Some (JString (iss_status issue))
      else if key = ''metadata'' then Some (JMetadata (iss_metadata issue))
      else None)"

text \<open>
  The values of the store.  The sort field is spliced into the query as a column name; the
  model covers the scalar columns of \<open>issues\<close>, and answers \<open>OutsideModel\<close> for any other
  sort field (the JSON text of \<open>metadata\<close>, an SQL expression, a name that is no column).
\<close>

datatype sql_value = SqlNull | SqlInteger int | SqlText string

definition scalar_columns :: "string list" where
  "scalar_columns =
     [''id'', ''fingerprint'', ''title'', ''culprit'', ''level'', ''platform'', ''first_seen'',
      ''last_seen'', ''count'', ''user_count'', ''status'']"

definition column_value :: "string \<Rightarrow> issue_row \<Rightarrow> sql_value" where
  "column_value name r =
     (if name = ''id'' then SqlText (i_id r)
      else if name = ''fingerprint'' then SqlText (i_fingerprint r)
      else if name = ''title'' then SqlText (i_title r)
      else if name = ''culprit''
      then (case i_culprit r of None \<Rightarrow> SqlNull | Some c \<Rightarrow> SqlText c)
      else if name = ''level'' then SqlText (i_level r)
      else if name = ''platform'' then SqlText (i_platform r)
      else if name = ''first_seen'' then SqlText (i_first_seen r)
      else if name = ''last_seen'' then SqlText (i_last_seen r)
      else if name = ''count'' then SqlInteger (i_count r)
      else if name = ''user_count'' then SqlInteger (i_user_count r)
      else if name = ''status'' then SqlText (i_status r)
      else SqlNull)"

text \<open>The order of \<open>ORDER BY\<close>: \<open>NULL\<close> first, then integers, then texts byte by byte.\<close>

definition sort_rank :: "sql_value \<Rightarrow> nat \<times> int \<times> string" where
  "sort_rank v =
     (case v of SqlNull \<Rightarrow> (0, 0, []) | SqlInteger n \<Rightarrow> (1, n, []) | SqlText t \<Rightarrow> (2, 0, t))"

text \<open>
  \<open>ORDER BY field DESC\<close>.  SQL leaves the order of rows with equal keys open; here they keep
  their insertion order.
\<close>

definition order_by_desc :: "string \<Rightarrow> issue_row list \<Rightarrow> issue_row list" where
  "order_by_desc field rows = rev (sort_key (\<lambda>r. sort_rank (column_value field r)) (rev rows))"

text \<open>A decimal integer literal \<open>-?[0-9]+\<close>.\<close>

definition int_literal :: "string \<Rightarrow> int option" where
  "int_literal s =
     (let ds = (case s of [] \<Rightarrow> [] | c # cs \<Rightarrow> if c = CHR ''-'' then cs else s);
          n = foldl (\<lambda>n c. 10 * n + (of_char c - 48)) (0 :: int) ds
      in if ds = [] \<or> \<not> list_all is_digit ds then None
         else if ds = s then Some n else Some (- n))"

text \<open>
  \<open>field < ?\<close> with the cursor bound as a text: a \<open>NULL\<close> is below nothing; a text column is
  compared byte by byte; an integer column is compared as a number with a cursor that is
  an integer literal (any other cursor on an integer column is outside the model).
\<close>

definition below_cursor :: "sql_value \<Rightarrow> string \<Rightarrow> error + bool" where
  "below_cursor v cursor =
     (case v of
        SqlNull \<Rightarrow> Inr False
      | SqlText t \<Rightarrow> Inr (t < cursor)
      | SqlInteger n \<Rightarrow>
          (case int_literal cursor of
             Some k \<Rightarrow> Inr (n < k)
           | None \<Rightarrow> Inl (OutsideModel ''cursor'')))"

text \<open>
  \<open>text LIKE pattern\<close>: \<open>%\<close> stands for any run of characters, \<open>_\<close> for one character, and
  the letters A to Z match without regard to case.
\<close>

definition fold_case :: "char \<Rightarrow> char" where
  "fold_case c = (if is_upper c then char_of (of_char c + (32 :: nat)) else c)"

fun like :: "string \<Rightarrow> string \<Rightarrow> bool" where
  "like [] t = (t = [])"
| "like (p # ps) t =
     (if p = CHR ''%'' then list_ex (\<lambda>k. like ps (drop k t)) [0 ..< Suc (length t)]
      else (case t of
              [] \<Rightarrow> False
            | c # cs \<Rightarrow> (p = CHR ''_'' \<or> fold_case p = fold_case c) \<and> like ps cs))"

text \<open>\<open>title LIKE ? OR culprit LIKE ?\<close>, both with \<open>%query%\<close>; a \<open>NULL\<close> culprit matches nothing.\<close>

definition matches_query :: "string \<Rightarrow> issue_row \<Rightarrow> bool" where
  "matches_query query r =
     (like (''%'' @ query @ ''%'') (i_title r) \<or>
      (case i_culprit r of None \<Rightarrow> False | Some c \<Rightarrow> like (''%'' @ query @ ''%'') c))"

text \<open>\<open>LIMIT n\<close>: a negative \<open>n\<close> is no limit.\<close>

definition sql_limit :: "int \<Rightarrow> 'a list \<Rightarrow> 'a list" where
  "sql_limit n rows = (if n < 0 then rows else take (nat n) rows)"

text \<open>\<open>rows.slice(0, end)\<close>: a negative \<open>end\<close> counts from the end of the array.\<close>

definition slice0 :: "int \<Rightarrow> 'a list \<Rightarrow> 'a list" where
  "slice0 end rows =
     (if end < 0 then take (nat (int (length rows) + end)) rows else take (nat end) rows)"

text \<open>
  The rows of the \<open>WHERE\<close> clause before the cursor: each of \<open>status\<close>, \<open>level\<close> and \<open>query\<close>
  adds its condition when it is truthy.
\<close>

definition filtered_rows :: "issues_request \<Rightarrow> issue_row list \<Rightarrow> issue_row list" where
  "filtered_rows req rows =
     (let by_status =
            (if truthy (q_status req) then [r \<leftarrow> rows. i_status r = the (q_status req)]
             else rows);
          by_level =
            (if truthy (q_level req) then [r \<leftarrow> by_status. i_level r = the (q_level req)]
             else by_status)
      in if truthy (q_query req) then [r \<leftarrow> by_level. matches_query (the (q_query req)) r]
         else by_level)"

text \<open>\<open>Math.min(limit || 25, 100)\<close>\<close>

definition page_limit :: "int option \<Rightarrow> int" where
  "page_limit limit = min (case limit of None \<Rightarrow> 25 | Some l \<Rightarrow> if l = 0 then 25 else l) 100"

definition handleGetIssues :: "issues_request \<Rightarrow> shard \<Rightarrow> error + issues_response" where
  "handleGetIssues req s =
     (let pageLimit = page_limit (q_limit req);
          sortField = or_else (q_sort req) ''last_seen'';
          candidates = filtered_rows req (issues s)
      in if sortField \<notin> set scalar_columns then Inl (OutsideModel sortField)
         else if truthy (q_cursor req) \<and>
                 (\<exists>r \<in> set candidates.
                    isl (below_cursor (column_value sortField r) (the (q_cursor req))))
         then Inl (OutsideModel ''cursor'')
         else
           (let selected =
                  (if truthy (q_cursor req)
                   then [r \<leftarrow> candidates.
                           below_cursor (column_value sortField r) (the (q_cursor req)) = Inr True]
                   else candidates);
                rows = sql_limit (pageLimit + 1) (order_by_desc sortField selected);
                more = (int (length rows) > pageLimit);
                page = map rowToIssue (slice0 pageLimit rows)
            in Inr \<lparr>resp_issues = page,
                    nextCursor =
                      (if more \<and> length page > 0 then issue_property (last page) sortField
                       else None),
                    hasMore = more\<rparr>))"

subsection \<open>Example queries\<close>

text \<open>An event with an id and a message, and the platform at a time, drawing an issue id.\<close>

definition event_about :: "string \<Rightarrow> string \<Rightarrow> SentryEvent" where
  "event_about eid msg = bare_event\<lparr>event_id := Some eid, ev_message := Some msg\<rparr>"

definition pf_at :: "string \<Rightarrow> string \<Rightarrow> platform" where
  "pf_at time uuid = pf0\<lparr>now := time, issue_uuid := uuid\<rparr>"

text \<open>
  A shard with 103 issues: 103 events, each with an explicit fingerprint token of its own,
  ingested one after the other.
\<close>

definition numbered_event :: "nat \<Rightarrow> SentryEvent" where
  "numbered_event k =
     bare_event\<lparr>event_id := Some (''e'' @ digits10 (int k)),
       ev_fingerprint := Some [''job-'' @ digits10 (int k)]\<rparr>"

definition numbered_platform :: "nat \<Rightarrow> platform" where
  "numbered_platform k = pf0\<lparr>issue_uuid := ''issue-'' @ digits10 (int k)\<rparr>"

definition crowded_shard :: shard where
  "crowded_shard =
     run (map (\<lambda>k. Ingest (numbered_platform k) (numbered_event k)) [0 ..< 103])"

text \<open>A request without filter, sort field and cursor, with a limit or without.\<close>

definition paged_request :: "int option \<Rightarrow> issues_request" where
  "paged_request limit =
     \<lparr>q_status = None, q_level = None, q_query = None, q_sort = None, q_cursor = None,
      q_limit = limit\<rparr>"

text \<open>Three events with three messages, ingested at three times.\<close>

definition three_issues :: shard where
  "three_issues =
     run [Ingest (pf_at ''2024-05-01T10:00:00.000Z'' ''issue-a'') (event_about ''e1'' ''disk full''),
          Ingest (pf_at ''2024-05-01T11:00:00.000Z'' ''issue-b'') (event_about ''e2'' ''no route''),
          Ingest (pf_at ''2024-05-01T12:00:00.000Z'' ''issue-c'') (event_about ''e3'' ''timeout'')]"

section \<open>Ingestion coordinator (\<open>lib/envelope-parser.ts\<close>, \<open>routes/ingestion.ts\<close>)\<close>

subsection \<open>Requests\<close>







subsection \<open>\<open>extractEvents\<close>\<close>







subsection \<open>\<open>handleIngestion\<close>\<close>








subsection \<open>What a response says\<close>








subsection \<open>Example requests\<close>













section \<open>Properties of the fingerprinter\<close>

declare replace_all.simps [simp del] toString16.simps [simp del] digits10.simps [simp del]

lemma filter_is_in_app:
  "filter (\<lambda>f. frame_in_app f \<noteq> Some False) fs = filter is_in_app fs"
  by (rule filter_cong) (simp_all add: is_in_app_def)

lemma getTopFrames_reversed:
  "getTopFrames (exc_stacktrace exc) 3 = top_frames_or_any exc"
  by (simp add: getTopFrames_def top_frames_or_any_def top_in_app_frames_def
        reversed_frames_def filter_is_in_app Let_def split: option.splits)

lemma generateFingerprint_tuple: "generateFingerprint e = hashArray (grouping_tuple e)"
  by (auto simp: generateFingerprint_def grouping_tuple_def explicit_tokens_def Let_def
        exception_tuple_def message_tuple_def getTopFrames_reversed truthy_def or_else_def
        split: option.splits)

text \<open>
  Claim C5, as the code has it.  The fingerprint follows the priority order: the non-default
  explicit tokens when there is one; otherwise the tuple of the first exception value, with
  its type defaulting to \<open>Error\<close>, its normalized message and up to three top in-app frames
  of the reversed stack trace or, when the stack trace has no in-app frame, up to three top
  frames of any kind; otherwise the level (or \<open>error\<close>) and the normalized message;
  otherwise the event id.
\<close>

theorem fingerprint_priority:
  "(explicit_tokens e \<noteq> [] \<longrightarrow> generateFingerprint e = hashArray (explicit_tokens e)) \<and>
   (explicit_tokens e = [] \<and> first_exception e = Some exc \<longrightarrow>
      generateFingerprint e = hashArray (exception_tuple exc (top_frames_or_any exc))) \<and>
   (explicit_tokens e = [] \<and> first_exception e = None \<and> truthy (ev_message e) \<longrightarrow>
      generateFingerprint e = hashArray (message_tuple e)) \<and>
   (explicit_tokens e = [] \<and> first_exception e = None \<and> \<not> truthy (ev_message e) \<longrightarrow>
      generateFingerprint e = hashArray [or_else (event_id e) []])"
  by (simp add: generateFingerprint_tuple grouping_tuple_def)

theorem fingerprint_priority_witness:
  "explicit_tokens tagged_event \<noteq> [] \<and>
   generateFingerprint tagged_event = hashArray [''checkout''] \<and>
   explicit_tokens (exception_event (app_exception ''x'')) = [] \<and>
   first_exception (exception_event (app_exception ''x'')) = Some (app_exception ''x'') \<and>
   generateFingerprint (exception_event (app_exception ''x'')) =
     hashArray [''TypeError'', ''x'', ''app.js''] \<and>
   explicit_tokens message_event = [] \<and> first_exception message_event = None \<and>
   truthy (ev_message message_event) \<and>
   generateFingerprint message_event = hashArray [''error'', ''disk full''] \<and>
   explicit_tokens bare_event = [] \<and> first_exception bare_event = None \<and>
   \<not> truthy (ev_message bare_event) \<and>
   generateFingerprint bare_event = hashArray [''e1'']"
proof -
  have t: "explicit_tokens tagged_event = [''checkout'']"
    by code_simp
  have x: "explicit_tokens (exception_event (app_exception ''x'')) = []"
    "first_exception (exception_event (app_exception ''x'')) = Some (app_exception ''x'')"
    "exception_tuple (app_exception ''x'') (top_frames_or_any (app_exception ''x'')) =
       [''TypeError'', ''x'', ''app.js'']"
    by code_simp+
  have m: "explicit_tokens message_event = []" "first_exception message_event = None"
    "truthy (ev_message message_event)" "message_tuple message_event = [''error'', ''disk full'']"
    by code_simp+
  have b: "explicit_tokens bare_event = []" "first_exception bare_event = None"
    "\<not> truthy (ev_message bare_event)" "or_else (event_id bare_event) [] = ''e1''"
    by code_simp+
  show ?thesis
    using fingerprint_priority [of tagged_event]
      fingerprint_priority [of "exception_event (app_exception ''x'')" "app_exception ''x''"]
      fingerprint_priority [of message_event] fingerprint_priority [of bare_event]
    by (simp add: t x m b)
qed

text \<open>
  Claim C5 as it is worded takes the frames of the exception tuple from the in-app frames
  alone.  An event whose only frame is a library frame has no explicit token and an
  exception value, and its fingerprint (\<open>963ab46d\<close>) is not the hash of the tuple
  \<open>[type, normalized message]\<close> followed by its (zero) in-app frames.
\<close>

theorem fingerprint_priority_counterexample:
  "explicit_tokens (exception_event library_exception) = [] \<and>
   first_exception (exception_event library_exception) = Some library_exception \<and>
   generateFingerprint (exception_event library_exception) \<noteq>
     hashArray (exception_tuple library_exception (top_in_app_frames library_exception))"
  by code_simp

text \<open>
  Claim C6.  Fingerprinting is a function of the event alone, and two events whose grouping
  inputs reduce to the same tuple after normalization have the same fingerprint, character
  for character.
\<close>

theorem fingerprint_deterministic:
  "generateFingerprint e = generateFingerprint e \<and>
   (grouping_tuple e1 = grouping_tuple e2 \<longrightarrow> generateFingerprint e1 = generateFingerprint e2)"
  by (simp add: generateFingerprint_tuple)

theorem fingerprint_deterministic_witness:
  "request_event_1 \<noteq> request_event_2 \<and>
   grouping_tuple request_event_1 = grouping_tuple request_event_2 \<and>
   generateFingerprint request_event_1 = generateFingerprint request_event_2"
proof -
  have d: "event_id request_event_1 \<noteq> event_id request_event_2"
    by code_simp
  have t: "grouping_tuple request_event_1 = [''TypeError'', ''Request <uuid> failed'', ''app.js'']"
    "grouping_tuple request_event_2 = [''TypeError'', ''Request <uuid> failed'', ''app.js'']"
    by code_simp+
  from d have "request_event_1 \<noteq> request_event_2"
    by auto
  then show ?thesis
    using fingerprint_deterministic [of request_event_1 request_event_1 request_event_2]
    by (simp add: t)
qed

text \<open>
  Claim C10.  In \<open>getTopFrames\<close> a frame without an \<open>in_app\<close> field counts as in-app: a
  stack trace with such a frame yields the top frames among those whose \<open>in_app\<close> is absent
  or true; the result differs from that only when every frame has \<open>in_app\<close> set to false,
  and then it is the top frames of any kind.
\<close>

theorem top_frames_in_app_default:
  assumes "st_frames st = Some fs"
  shows "((\<exists>f \<in> set fs. frame_in_app f = None) \<longrightarrow>
            getTopFrames (Some st) n =
              take n [f \<leftarrow> rev fs. frame_in_app f = None \<or> frame_in_app f = Some True]) \<and>
         (getTopFrames (Some st) n \<noteq>
              take n [f \<leftarrow> rev fs. frame_in_app f = None \<or> frame_in_app f = Some True] \<longrightarrow>
            (\<forall>f \<in> set fs. frame_in_app f = Some False)) \<and>
         ((\<forall>f \<in> set fs. frame_in_app f = Some False) \<longrightarrow>
            getTopFrames (Some st) n = take n (rev fs))"
proof -
  have eq: "filter (\<lambda>f. frame_in_app f \<noteq> Some False) xs =
      [f \<leftarrow> xs. frame_in_app f = None \<or> frame_in_app f = Some True]" for xs
  proof (rule filter_cong)
    fix f
    show "(frame_in_app f \<noteq> Some False) =
        (frame_in_app f = None \<or> frame_in_app f = Some True)"
      by (cases "frame_in_app f") auto
  qed simp
  show ?thesis
    using assms
    by (auto simp: getTopFrames_def Let_def eq filter_empty_conv)
qed

theorem top_frames_in_app_default_witness:
  "st_frames \<lparr>st_frames = Some [frame_of ''app.js'' None, frame_of ''lib.js'' (Some False)]\<rparr> =
     Some [frame_of ''app.js'' None, frame_of ''lib.js'' (Some False)] \<and>
   (\<exists>f \<in> set [frame_of ''app.js'' None, frame_of ''lib.js'' (Some False)].
      frame_in_app f = None) \<and>
   getTopFrames
     (Some \<lparr>st_frames = Some [frame_of ''app.js'' None, frame_of ''lib.js'' (Some False)]\<rparr>) 3 =
     [frame_of ''app.js'' None] \<and>
   map frame_in_app [frame_of ''dep.js'' (Some False), frame_of ''lib.js'' (Some False)] =
     [Some False, Some False] \<and>
   getTopFrames
     (Some \<lparr>st_frames =
        Some [frame_of ''dep.js'' (Some False), frame_of ''lib.js'' (Some False)]\<rparr>) 3 =
     [frame_of ''lib.js'' (Some False), frame_of ''dep.js'' (Some False)]"
proof -
  let ?mixed = "[frame_of ''app.js'' None, frame_of ''lib.js'' (Some False)]"
  let ?library = "[frame_of ''dep.js'' (Some False), frame_of ''lib.js'' (Some False)]"
  have sel: "st_frames \<lparr>st_frames = Some fs\<rparr> = Some fs" for fs :: "StackFrame list"
    by simp
  have absent: "\<exists>f \<in> set ?mixed. frame_in_app f = None"
    by (simp add: frame_of_def)
  have all_false: "\<forall>f \<in> set ?library. frame_in_app f = Some False"
    by (simp add: frame_of_def)
  have "getTopFrames (Some \<lparr>st_frames = Some ?mixed\<rparr>) 3 =
      take 3 [f \<leftarrow> rev ?mixed. frame_in_app f = None \<or> frame_in_app f = Some True]"
    using top_frames_in_app_default [OF sel [of ?mixed], of 3] absent
    by blast
  then have mixed: "getTopFrames (Some \<lparr>st_frames = Some ?mixed\<rparr>) 3 = [frame_of ''app.js'' None]"
    by (simp add: frame_of_def)
  have "getTopFrames (Some \<lparr>st_frames = Some ?library\<rparr>) 3 = take 3 (rev ?library)"
    using top_frames_in_app_default [OF sel [of ?library], of 3] all_false
    by blast
  then have library: "getTopFrames (Some \<lparr>st_frames = Some ?library\<rparr>) 3 =
      [frame_of ''lib.js'' (Some False), frame_of ''dep.js'' (Some False)]"
    by simp
  from absent mixed library show ?thesis
    by (simp add: frame_of_def)
qed

section \<open>Properties of the project shard\<close>

lemma other_fields_bump_issue:
  "map other_fields (bump_issue seen isId rows) = map other_fields rows"
  by (simp add: bump_issue_def other_fields_def)

lemma other_fields_bump_user_count:
  "map other_fields (bump_user_count isId rows) = map other_fields rows"
  by (simp add: bump_user_count_def other_fields_def)

lemma upsert_issue_existing:
  assumes "generateFingerprint ev \<in> set (map i_fingerprint (issues s))"
  shows "\<exists>isId. upsert_issue pf ev s =
           (Inr isId, s\<lparr>issues := bump_issue (now pf) isId (issues s)\<rparr>)"
proof -
  from assms have "[r \<leftarrow> issues s. i_fingerprint r = generateFingerprint ev] \<noteq> []"
    by (auto simp: filter_empty_conv)
  then obtain r rs where "[r \<leftarrow> issues s. i_fingerprint r = generateFingerprint ev] = r # rs"
    by (cases "[r \<leftarrow> issues s. i_fingerprint r = generateFingerprint ev]") auto
  then show ?thesis
    by (simp add: upsert_issue_def Let_def)
qed

lemma track_user_issues:
  "issues (snd (track_user pf ev isId s)) = issues s \<or>
   issues (snd (track_user pf ev isId s)) = bump_user_count isId (issues s)"
  by (simp add: track_user_def split: option.splits sum.splits)

lemma track_user_events: "events (snd (track_user pf ev isId s)) = events s"
  by (simp add: track_user_def split: option.splits sum.splits)

lemma track_user_other_fields:
  assumes "track_user pf ev isId s = (res, s')"
  shows "map other_fields (issues s') = map other_fields (issues s)"
  using track_user_issues [of pf ev isId s] assms
  by (auto simp: other_fields_bump_user_count)

lemma handleIngest_issues:
  assumes "upsert_issue pf ev s = (Inr isId, s1)"
  shows "map other_fields (issues (snd (handleIngest pf ev s))) = map other_fields (issues s1)"
  using assms
  by (auto simp: handleIngest_def Let_def split: sum.splits prod.splits
        dest!: track_user_other_fields)

text \<open>
  Claim C7.  An ingest of an event whose fingerprint matches an existing issue, whether it
  succeeds or fails, adds and removes no issue row and changes a row in nothing but
  \<open>last_seen\<close>, \<open>count\<close> and \<open>user_count\<close>: status, first_seen, title, culprit, level, platform,
  metadata, fingerprint and id stay as they are.  In particular every status stays.
\<close>

theorem ingest_keeps_other_fields:
  assumes "generateFingerprint ev \<in> set (map i_fingerprint (issues s))"
  shows "map other_fields (issues (snd (handleIngest pf ev s))) = map other_fields (issues s) \<and>
         map i_status (issues (snd (handleIngest pf ev s))) = map i_status (issues s)"
proof -
  obtain isId where u:
    "upsert_issue pf ev s = (Inr isId, s\<lparr>issues := bump_issue (now pf) isId (issues s)\<rparr>)"
    using upsert_issue_existing [OF assms] by blast
  have o: "map other_fields (issues (snd (handleIngest pf ev s))) = map other_fields (issues s)"
    using handleIngest_issues [OF u] by (simp add: other_fields_bump_issue)
  have "map i_status (map other_fields rows) = map i_status rows" for rows
    by (simp add: other_fields_def)
  with o show ?thesis
    by metis
qed

theorem ingest_keeps_other_fields_witness:
  "generateFingerprint second_event \<in> set (map i_fingerprint (issues shard_resolved)) \<and>
   map i_status (issues shard_resolved) = [''resolved''] \<and>
   map i_status (issues (snd (handleIngest pf1 second_event shard_resolved))) = [''resolved''] \<and>
   map i_count (issues shard_resolved) = [1] \<and>
   map i_count (issues (snd (handleIngest pf1 second_event shard_resolved))) = [2]"
proof -
  have h: "generateFingerprint second_event \<in> set (map i_fingerprint (issues shard_resolved))"
    by code_simp
  have st: "map i_status (issues shard_resolved) = [''resolved'']"
    by code_simp
  have c: "map i_count (issues shard_resolved) = [1]"
    "map i_count (issues (snd (handleIngest pf1 second_event shard_resolved))) = [2]"
    by code_simp+
  show ?thesis
    using ingest_keeps_other_fields [OF h, of pf1] h st c by simp
qed

lemma upsert_issue_tables:
  assumes "upsert_issue pf ev s = (res, s1)"
  shows "events s1 = events s \<and> issue_stats s1 = issue_stats s \<and>
         issue_users s1 = issue_users s \<and>
         map i_user_count (take (length (issues s)) (issues s1)) = map i_user_count (issues s)"
proof (cases "[r \<leftarrow> issues s. i_fingerprint r = generateFingerprint ev]")
  case Nil
  with assms show ?thesis
    by (auto simp: upsert_issue_def Let_def insert_issue_def split: if_splits)
next
  case (Cons r rs)
  have "map i_user_count (bump_issue seen isId rows) = map i_user_count rows"
    and "length (bump_issue seen isId rows) = length rows" for seen isId rows
    by (simp_all add: bump_issue_def)
  with Cons assms show ?thesis
    by (auto simp: upsert_issue_def Let_def)
qed

text \<open>
  Claim C2, as the code has it.  A retried ingest of an event whose \<open>event_id\<close> is already
  stored ends in an error, not in a success; the event rows, the hourly buckets and the user
  rows are left as they were, and no user count of an existing issue is incremented.
\<close>

theorem retry_is_rejected:
  assumes "event_id ev = Some E" and "E \<noteq> []" and "E \<in> set (map e_id (events s))"
  shows "isl (fst (handleIngest pf ev s)) \<and>
         events (snd (handleIngest pf ev s)) = events s \<and>
         issue_stats (snd (handleIngest pf ev s)) = issue_stats s \<and>
         issue_users (snd (handleIngest pf ev s)) = issue_users s \<and>
         map i_user_count (take (length (issues s)) (issues (snd (handleIngest pf ev s)))) =
           map i_user_count (issues s)"
proof -
  obtain res s1 where u: "upsert_issue pf ev s = (res, s1)"
    by (cases "upsert_issue pf ev s")
  note t = upsert_issue_tables [OF u]
  have id: "or_else (event_id ev) (event_uuid pf) = E"
    using assms by (simp add: or_else_def)
  show ?thesis
  proof (cases res)
    case (Inl err)
    with u t show ?thesis
      by (simp add: handleIngest_def Let_def)
  next
    case (Inr isId)
    have "insert_event (new_event_row pf ev E isId ts) (events s1) =
        Inl (ConstraintViolation ''events.id'')" for ts
      using assms t by (simp add: insert_event_def new_event_row_def)
    with Inr u t id show ?thesis
      by (simp add: handleIngest_def Let_def)
  qed
qed

theorem retry_is_rejected_witness:
  "event_id message_event = Some ''e1'' \<and> ''e1'' \<in> set (map e_id (events shard_once)) \<and>
   isl (fst (handleIngest pf1 message_event shard_once)) \<and>
   events (snd (handleIngest pf1 message_event shard_once)) = events shard_once \<and>
   issue_stats (snd (handleIngest pf1 message_event shard_once)) = issue_stats shard_once"
proof -
  have h: "event_id message_event = Some ''e1''" "''e1'' \<noteq> []"
    "''e1'' \<in> set (map e_id (events shard_once))"
    by code_simp+
  show ?thesis
    using retry_is_rejected [OF h, of pf1] h by simp
qed

text \<open>
  Claim C2 as it is worded fails on the shard that holds the event \<open>e1\<close>: sending \<open>e1\<close>
  again ends in the constraint violation of the event insert, and the count of its issue
  has gone from 1 to 2.
\<close>

theorem retry_counterexample:
  "event_id message_event = Some ''e1'' \<and>
   map e_id (events shard_once) = [''e1''] \<and>
   fst (handleIngest pf1 message_event shard_once) = Inl (ConstraintViolation ''events.id'') \<and>
   map i_count (issues shard_once) = [1] \<and>
   map i_count (issues (snd (handleIngest pf1 message_event shard_once))) = [2]"
  by code_simp

text \<open>
  Claim C1 fails on the code.  After the same event was ingested twice (the second ingest
  fails at the event insert, after the issue row was updated), the only issue has count 2
  and one event row.
\<close>

theorem count_drifts_on_retry:
  "map i_id (issues shard_retried) = [''uuid-issue''] \<and>
   map i_count (issues shard_retried) = [2] \<and>
   events_of shard_retried ''uuid-issue'' = 1"
  by code_simp

text \<open>
  Claim C4 fails on the code.  After an ingest and an \<open>update_issue\<close> with the status
  \<open>banana\<close>, the stored status of the issue is \<open>banana\<close>, which is none of \<open>unresolved\<close>,
  \<open>resolved\<close> and \<open>ignored\<close>.
\<close>

theorem update_stores_any_status:
  "map i_status (issues (run [Ingest pf0 message_event, UpdateIssue pf0 banana_request])) =
     [''banana''] \<and>
   ''banana'' \<notin> set [''unresolved'', ''resolved'', ''ignored'']"
  by code_simp

section \<open>Properties of the issue list\<close>

lemma length_order_by_desc: "length (order_by_desc field rows) = length rows"
  by (simp add: order_by_desc_def)

lemma filtered_rows_paged: "filtered_rows (paged_request limit) rows = rows"
  by (simp add: filtered_rows_def paged_request_def truthy_def)

lemma default_sort_property: "issue_property issue ''last_seen'' = None"
  by (simp add: issue_property_def)

lemma default_sort_column: "''last_seen'' \<in> set scalar_columns"
  by (simp add: scalar_columns_def)

text \<open>With the default sort field there is never a next cursor.\<close>

lemma default_sort_no_cursor:
  assumes "q_sort req = None" and "handleGetIssues req s = Inr r"
  shows "nextCursor r = None"
  using assms
  by (auto simp: handleGetIssues_def Let_def or_else_def default_sort_property
        split: if_splits)

text \<open>A limit below \<open>-1\<close> lifts the cap: all rows but the last \<open>- limit\<close> are returned.\<close>

lemma negative_limit_page:
  assumes "l < - 1"
  shows "\<exists>r. handleGetIssues (paged_request (Some l)) s = Inr r \<and>
             length (resp_issues r) = nat (int (length (issues s)) + l)"
proof -
  have p: "page_limit (Some l) = l"
    using assms by (simp add: page_limit_def)
  show ?thesis
    using assms
    by (simp add: handleGetIssues_def Let_def p filtered_rows_paged or_else_def
          default_sort_column sql_limit_def slice0_def length_order_by_desc truthy_def
          paged_request_def[of "Some l", THEN arg_cong, of q_sort]
          paged_request_def[of "Some l", THEN arg_cong, of q_cursor]
          paged_request_def[of "Some l", THEN arg_cong, of q_limit])
qed

lemma map_other_fields_keys:
  assumes "map other_fields rows' = map other_fields rows"
  shows "map i_fingerprint rows' = map i_fingerprint rows \<and> map i_id rows' = map i_id rows"
proof -
  have "map i_fingerprint (map other_fields xs) = map i_fingerprint xs \<and>
      map i_id (map other_fields xs) = map i_id xs" for xs
    by (simp add: other_fields_def)
  with assms show ?thesis
    by metis
qed

text \<open>An event with a fingerprint the shard has not seen makes a new issue row.\<close>

lemma ingest_fresh_issue:
  assumes "generateFingerprint ev \<notin> set (map i_fingerprint (issues s))"
    and "issue_uuid pf \<notin> set (map i_id (issues s))"
  shows "map i_fingerprint (issues (snd (handleIngest pf ev s))) =
           map i_fingerprint (issues s) @ [generateFingerprint ev] \<and>
         map i_id (issues (snd (handleIngest pf ev s))) = map i_id (issues s) @ [issue_uuid pf]"
proof -
  from assms(1) have "[r \<leftarrow> issues s. i_fingerprint r = generateFingerprint ev] = []"
    by (force simp: filter_empty_conv)
  with assms have "upsert_issue pf ev s =
      (Inr (issue_uuid pf),
       s\<lparr>issues := issues s @ [new_issue_row pf ev (generateFingerprint ev)]\<rparr>)"
    by (simp add: upsert_issue_def Let_def insert_issue_def new_issue_row_def)
  from handleIngest_issues [OF this]
  have "map other_fields (issues (snd (handleIngest pf ev s))) =
      map other_fields (issues s @ [new_issue_row pf ev (generateFingerprint ev)])"
    by simp
  from map_other_fields_keys [OF this] show ?thesis
    by (simp add: new_issue_row_def)
qed

lemma run_snoc: "run (reqs @ [req]) = after_request (run reqs) req"
  by (simp add: run_def)

lemma run_fresh_ingests:
  assumes "distinct (map (\<lambda>(pf, ev). generateFingerprint ev) xs)"
    and "distinct (map (\<lambda>(pf, ev). issue_uuid pf) xs)"
  shows "map i_fingerprint (issues (run (map (\<lambda>(pf, ev). Ingest pf ev) xs))) =
           map (\<lambda>(pf, ev). generateFingerprint ev) xs \<and>
         map i_id (issues (run (map (\<lambda>(pf, ev). Ingest pf ev) xs))) =
           map (\<lambda>(pf, ev). issue_uuid pf) xs"
  using assms
proof (induction xs rule: rev_induct)
  case Nil
  show ?case
    by (simp add: run_def empty_shard_def)
next
  case (snoc x xs)
  obtain pf ev where x: "x = (pf, ev)"
    by (cases x)
  from snoc have ih:
    "map i_fingerprint (issues (run (map (\<lambda>(pf, ev). Ingest pf ev) xs))) =
       map (\<lambda>(pf, ev). generateFingerprint ev) xs"
    "map i_id (issues (run (map (\<lambda>(pf, ev). Ingest pf ev) xs))) =
       map (\<lambda>(pf, ev). issue_uuid pf) xs"
    by simp_all
  from snoc.prems x have fresh:
    "generateFingerprint ev \<notin> set (map (\<lambda>(pf, ev). generateFingerprint ev) xs)"
    "issue_uuid pf \<notin> set (map (\<lambda>(pf, ev). issue_uuid pf) xs)"
    by auto
  show ?case
    using ingest_fresh_issue [of ev "run (map (\<lambda>(pf, ev). Ingest pf ev) xs)" pf] fresh
    by (simp add: x run_snoc ih)
qed

lemma crowded_shard_size: "length (issues crowded_shard) = 103"
proof -
  let ?xs = "map (\<lambda>k. (numbered_platform k, numbered_event k)) [0 ..< 103]"
  have c: "crowded_shard = run (map (\<lambda>(pf, ev). Ingest pf ev) ?xs)"
    by (simp add: crowded_shard_def comp_def)
  have f: "distinct (map (\<lambda>k. generateFingerprint (numbered_event k)) [0 ..< 103])"
    by code_simp
  have i: "distinct (map (\<lambda>k. issue_uuid (numbered_platform k)) [0 ..< 103])"
    by code_simp
  have "length (map i_id (issues (run (map (\<lambda>(pf, ev). Ingest pf ev) ?xs)))) = 103"
    using run_fresh_ingests [of ?xs] f i
    by (simp add: comp_def)
  with c show ?thesis
    by simp
qed

text \<open>
  Claim C9 fails on the code.  On a shard with 103 issues, \<open>get_issues\<close> with the limit
  \<open>-2\<close> and nothing else returns 101 issues, more than the cap of 100.
\<close>

theorem negative_limit_exceeds_cap:
  "length (issues crowded_shard) = 103 \<and>
   \<not> isl (handleGetIssues (paged_request (Some (- 2))) crowded_shard) \<and>
   length (resp_issues (projr (handleGetIssues (paged_request (Some (- 2))) crowded_shard))) =
     101"
  using negative_limit_page [of "- 2" crowded_shard]
  by (auto simp: crowded_shard_size)

text \<open>
  Claim C3 fails on the code.  On a shard with three issues last seen at 10:00, 11:00 and
  12:00, \<open>get_issues\<close> with the limit 2 and the default sort field returns the issues of
  12:00 and 11:00 with \<open>has_more = true\<close>, but no next cursor: the sort field \<open>last_seen\<close>
  names a column of the table and no property of the issues returned.
\<close>

theorem default_sort_page_has_no_cursor:
  "map i_last_seen (issues three_issues) =
     [''2024-05-01T10:00:00.000Z'', ''2024-05-01T11:00:00.000Z'', ''2024-05-01T12:00:00.000Z''] \<and>
   \<not> isl (handleGetIssues (paged_request (Some 2)) three_issues) \<and>
   map iss_lastSeen (resp_issues (projr (handleGetIssues (paged_request (Some 2)) three_issues))) =
     [''2024-05-01T12:00:00.000Z'', ''2024-05-01T11:00:00.000Z''] \<and>
   hasMore (projr (handleGetIssues (paged_request (Some 2)) three_issues)) \<and>
   nextCursor (projr (handleGetIssues (paged_request (Some 2)) three_issues)) = None"
  by code_simp

section \<open>Properties of the ingestion coordinator\<close>















end
